theory Spec2Isabelle
  imports Complex_Main
begin

section \<open>ShopStream API gateway: data model\<close>

text \<open>
  The gateway (\<^verbatim>\<open>services/api-gateway/src/index.js\<close>) keeps two kinds of keys in Redis:
  \<^verbatim>\<open>cart:<userId>\<close> holding the JSON text of an array of line items, and
  \<^verbatim>\<open>blacklist:<token>\<close> holding the constant marker \<^verbatim>\<open>"1"\<close>. Both are written with
  \<^verbatim>\<open>setex\<close>, so every entry carries a time to live in seconds.

  Typing. JavaScript values are dynamic; the model is the typed view of well-formed
  requests: a productId and a user id are integers, a quantity is an integer, a price is
  a rational number (so \<^verbatim>\<open>+\<close> and \<^verbatim>\<open>*\<close> are exact), names and image references are
  strings. A cart blob is modelled by the array it parses to
  (\<^verbatim>\<open>JSON.parse (JSON.stringify cart)\<close> is \<^verbatim>\<open>cart\<close> on such values), and
  \<^verbatim>\<open>cartData\<close> is truthy exactly when the key exists, since the text of an array is
  never the empty string.
\<close>

record item =
  productId :: int
  name :: string
  price :: rat
  image_src :: string
  quantity :: int

type_synonym cart = "item list"

text \<open>The Redis data the gateway reads and writes: carts by user id with their TTL,
  revocation markers by token with their TTL.\<close>

record cache =
  carts :: "int \<rightharpoonup> cart \<times> nat"
  blacklist :: "string \<rightharpoonup> nat"

text \<open>A promise either rejects (the \<^verbatim>\<open>await\<close> throws) or resolves to a value.\<close>

datatype 'a promise = Throws | Returns 'a

text \<open>Parsed JSON, for the payloads the gateway relays without looking inside.\<close>

datatype json =
  JNull
  | JBool bool
  | JNum rat
  | JStr string
  | JArr "json list"
  | JObj "(string \<times> json) list"

text \<open>
  The result of \<^verbatim>\<open>await fetch (...)\<close>: the call rejects (connection refused, timeout,
  abort), or a response arrives with its status code and, when the body is JSON text,
  the value \<^verbatim>\<open>response.json ()\<close> resolves to (\<open>None\<close>: \<^verbatim>\<open>json ()\<close> rejects).
\<close>

datatype 'a fetched = NetworkError | Response nat "'a option"

definition ok :: "nat \<Rightarrow> bool" where
  "ok st \<longleftrightarrow> 200 \<le> st \<and> st \<le> 299"

text \<open>What \<^verbatim>\<open>POST /cart/add\<close> reads from the product service's answer. For this
  payload \<open>None\<close> also stands for a JSON value that is no object (\<^verbatim>\<open>null.name\<close>
  throws like a failed \<^verbatim>\<open>json ()\<close>).\<close>

record product =
  product_name :: string
  product_price :: rat
  product_image :: string

record order_request =
  userId :: int
  items :: cart
  total :: rat

record notification =
  notify_userId :: int
  notify_type :: string
  notify_orderId :: "json option"
  notify_total :: "json option"

text \<open>The requests a handler issues to downstream services, in order.\<close>

datatype call =
  ProductGet int
  | OrderPost order_request
  | NotifyPost notification

text \<open>The decoded payload of a session token: the user id the handlers key the cart
  by, the role, and the expiry in seconds since the epoch when the token carries one.\<close>

record claims =
  user_id :: int
  role :: string
  exp :: "int option"

text \<open>
  What the outside world does during one request: whether each Redis command of the
  request completes, what \<^verbatim>\<open>jwt.verify\<close> makes of a token (the
  decoded claims, or \<open>None\<close> when it throws), and what each downstream service answers.
\<close>

record env =
  redis_ping_ok :: bool
  redis_get_ok :: bool
  redis_setex_ok :: bool
  redis_del_ok :: bool
  jwt_verify :: "string \<Rightarrow> claims option"
  product_fetch :: "int \<Rightarrow> product fetched"
  order_fetch :: "order_request \<Rightarrow> json fetched"
  notify_fetch :: "notification \<Rightarrow> json fetched"
  health_fetch :: "string \<Rightarrow> json fetched"
  auth_health_fetch :: "json fetched"

text \<open>The object \<^verbatim>\<open>GET /health\<close> builds (its timestamp and uptime are left out).\<close>

record health =
  health_status :: string
  health_cache :: string
  health_services :: "string \<rightharpoonup> string"
  health_database :: json

datatype body =
  ErrorBody string
  | MessageBody string
  | CartBody cart
  | JsonBody json
  | HealthBody health

record response =
  status :: nat
  body :: body

type_synonym result = "response \<times> cache \<times> call list"

definition reply :: "nat \<Rightarrow> body \<Rightarrow> response" where
  "reply st b = \<lparr>status = st, body = b\<rparr>"

section \<open>Redis commands\<close>

definition redis_get_cart :: "env \<Rightarrow> cache \<Rightarrow> int \<Rightarrow> cart option promise" where
  "redis_get_cart e r u =
     (if redis_get_ok e then Returns (map_option fst (carts r u)) else Throws)"

definition redis_get_blacklist :: "env \<Rightarrow> cache \<Rightarrow> string \<Rightarrow> nat option promise" where
  "redis_get_blacklist e r t =
     (if redis_get_ok e then Returns (blacklist r t) else Throws)"

definition redis_setex_cart :: "env \<Rightarrow> cache \<Rightarrow> int \<Rightarrow> nat \<Rightarrow> cart \<Rightarrow> cache promise" where
  "redis_setex_cart e r u ttl c =
     (if redis_setex_ok e then Returns (r\<lparr>carts := (carts r)(u \<mapsto> (c, ttl))\<rparr>) else Throws)"

definition redis_del_cart :: "env \<Rightarrow> cache \<Rightarrow> int \<Rightarrow> cache promise" where
  "redis_del_cart e r u =
     (if redis_del_ok e then Returns (r\<lparr>carts := (carts r)(u := None)\<rparr>) else Throws)"

definition CART_TTL :: nat where
  "CART_TTL = 86400 * 7"

section \<open>Cart aggregator\<close>

text \<open>\<^verbatim>\<open>cart.find ((c) => c.productId === p)\<close>: the first entry with that productId.\<close>

definition find_item :: "int \<Rightarrow> cart \<Rightarrow> item option" where
  "find_item p c = find (\<lambda>i. productId i = p) c"

text \<open>Assigning to a field of the object \<^verbatim>\<open>find\<close> returned changes the first match in
  place.\<close>

fun update_first :: "int \<Rightarrow> (item \<Rightarrow> item) \<Rightarrow> cart \<Rightarrow> cart" where
  "update_first p f [] = []"
| "update_first p f (x # xs) =
     (if productId x = p then f x # xs else x # update_first p f xs)"

text \<open>One iteration of the merge loop of \<^verbatim>\<open>POST /cart/sync\<close>.\<close>

definition merge_item :: "cart \<Rightarrow> item \<Rightarrow> cart" where
  "merge_item c it =
     (case find_item (productId it) c of
        Some existing \<Rightarrow>
          update_first (productId it) (\<lambda>x. x\<lparr>quantity := max (quantity x) (quantity it)\<rparr>) c
      | None \<Rightarrow> c @ [it])"

fun merge_items :: "cart \<Rightarrow> item list \<Rightarrow> cart" where
  "merge_items c [] = c"
| "merge_items c (it # its) = merge_items (merge_item c it) its"

definition stored_cart :: "cart option \<Rightarrow> cart" where
  "stored_cart cartData = (case cartData of None \<Rightarrow> [] | Some c \<Rightarrow> c)"

definition cart_get :: "env \<Rightarrow> int \<Rightarrow> cache \<Rightarrow> result" where
  "cart_get e u r =
     (case redis_get_cart e r u of
        Throws \<Rightarrow> (reply 500 (ErrorBody ''Failed to fetch cart''), r, [])
      | Returns cartData \<Rightarrow> (reply 200 (CartBody (stored_cart cartData)), r, []))"

definition cart_sync :: "env \<Rightarrow> int \<Rightarrow> item list \<Rightarrow> cache \<Rightarrow> result" where
  "cart_sync e u its r =
     (case redis_get_cart e r u of
        Throws \<Rightarrow> (reply 500 (ErrorBody ''Failed to sync cart''), r, [])
      | Returns cartData \<Rightarrow>
          (let c = merge_items (stored_cart cartData) its in
           case redis_setex_cart e r u CART_TTL c of
             Throws \<Rightarrow> (reply 500 (ErrorBody ''Failed to sync cart''), r, [])
           | Returns r' \<Rightarrow> (reply 200 (CartBody c), r', [])))"

definition new_item :: "int \<Rightarrow> product \<Rightarrow> int \<Rightarrow> item" where
  "new_item p pr q =
     \<lparr>productId = p, name = product_name pr, price = product_price pr,
      image_src = product_image pr, quantity = q\<rparr>"

definition cart_add :: "env \<Rightarrow> int \<Rightarrow> int \<Rightarrow> int \<Rightarrow> cache \<Rightarrow> result" where
  "cart_add e u p q r =
     (case redis_get_cart e r u of
        Throws \<Rightarrow> (reply 500 (ErrorBody ''Failed to add to cart''), r, [])
      | Returns cartData \<Rightarrow>
          (let c = stored_cart cartData in
           case find_item p c of
             Some existingItem \<Rightarrow>
               (let c' = update_first p (\<lambda>x. x\<lparr>quantity := quantity x + q\<rparr>) c in
                case redis_setex_cart e r u CART_TTL c' of
                  Throws \<Rightarrow> (reply 500 (ErrorBody ''Failed to add to cart''), r, [])
                | Returns r' \<Rightarrow> (reply 200 (CartBody c'), r', []))
           | None \<Rightarrow>
               (case product_fetch e p of
                  NetworkError \<Rightarrow>
                    (reply 500 (ErrorBody ''Failed to add to cart''), r, [ProductGet p])
                | Response st b \<Rightarrow>
                    if \<not> ok st then
                      (reply 404 (ErrorBody ''Product not found''), r, [ProductGet p])
                    else
                      (case b of
                         None \<Rightarrow>
                           (reply 500 (ErrorBody ''Failed to add to cart''), r, [ProductGet p])
                       | Some pr \<Rightarrow>
                           (let c' = c @ [new_item p pr q] in
                            case redis_setex_cart e r u CART_TTL c' of
                              Throws \<Rightarrow>
                                (reply 500 (ErrorBody ''Failed to add to cart''), r,
                                 [ProductGet p])
                            | Returns r' \<Rightarrow> (reply 200 (CartBody c'), r', [ProductGet p]))))))"

definition cart_clear :: "env \<Rightarrow> int \<Rightarrow> cache \<Rightarrow> result" where
  "cart_clear e u r =
     (case redis_del_cart e r u of
        Throws \<Rightarrow> (reply 500 (ErrorBody ''Failed to clear cart''), r, [])
      | Returns r' \<Rightarrow> (reply 200 (MessageBody ''Cart cleared''), r', []))"

section \<open>Auth gate\<close>

text \<open>\<^verbatim>\<open>s.split (" ")\<close>: the pieces between single spaces, empty pieces included.\<close>

fun split_space :: "string \<Rightarrow> string list" where
  "split_space [] = [[]]"
| "split_space (c # cs) =
     (if c = CHR '' '' then [] # split_space cs
      else (case split_space cs of [] \<Rightarrow> [[c]] | w # ws \<Rightarrow> (c # w) # ws))"

text \<open>\<^verbatim>\<open>authHeader && authHeader.split (" ")[1]\<close>, with \<open>None\<close> for every falsy
  result (no header, no second piece, an empty second piece).\<close>

definition bearer_token :: "string option \<Rightarrow> string option" where
  "bearer_token authHeader =
     (case authHeader of
        None \<Rightarrow> None
      | Some h \<Rightarrow>
          (case split_space h of
             _ # t # _ \<Rightarrow> if t = [] then None else Some t
           | _ \<Rightarrow> None))"

text \<open>
  The outcome of a middleware: it answers the request itself, or calls \<^verbatim>\<open>next ()\<close>
  with \<^verbatim>\<open>req.user\<close> set or not. The lookup \<^verbatim>\<open>redis.get (`blacklist:${token}`)\<close> yields
  the marker or \<^verbatim>\<open>null\<close>; the only marker ever written is the string \<^verbatim>\<open>"1"\<close>, which
  is truthy, so finding an entry and \<^verbatim>\<open>isBlacklisted\<close> being truthy are the same.
\<close>

datatype gate = Rejected response | Next "claims option"


definition optionalAuth :: "env \<Rightarrow> cache \<Rightarrow> string option \<Rightarrow> gate" where
  "optionalAuth e r authHeader =
     (case bearer_token authHeader of
        None \<Rightarrow> Next None
      | Some token \<Rightarrow>
          (case redis_get_blacklist e r token of
             Throws \<Rightarrow> Next None
           | Returns (Some isBlacklisted) \<Rightarrow> Next None
           | Returns None \<Rightarrow> Next (jwt_verify e token)))"

section \<open>Checkout orchestrator\<close>

definition cart_total :: "cart \<Rightarrow> rat" where
  "cart_total c = foldl (\<lambda>sum it. sum + price it * of_int (quantity it)) 0 c"

text \<open>Reading a property of a parsed JSON value: \<^verbatim>\<open>null.id\<close> throws a TypeError, an
  object gives the property or \<^verbatim>\<open>undefined\<close>, any other value gives \<^verbatim>\<open>undefined\<close>
  for the property names used here.\<close>

fun jfield :: "string \<Rightarrow> json \<Rightarrow> json option promise" where
  "jfield k JNull = Throws"
| "jfield k (JObj kvs) = Returns (map_of kvs k)"
| "jfield k v = Returns None"

text \<open>The inner \<^verbatim>\<open>try\<close> of \<^verbatim>\<open>POST /orders\<close>: build the notification, post it, and
  catch whatever is thrown. The answer of the notification service is not looked at.\<close>

definition notify_order :: "env \<Rightarrow> int \<Rightarrow> json \<Rightarrow> call list" where
  "notify_order e u order =
     (case jfield ''id'' order of
        Throws \<Rightarrow> []
      | Returns oid \<Rightarrow>
          (case jfield ''total'' order of
             Throws \<Rightarrow> []
           | Returns tot \<Rightarrow>
               (let n = \<lparr>notify_userId = u, notify_type = ''order_created'',
                         notify_orderId = oid, notify_total = tot\<rparr>
                in case notify_fetch e n of
                     NetworkError \<Rightarrow> [NotifyPost n]
                   | Response st b \<Rightarrow> [NotifyPost n])))"

definition create_order :: "env \<Rightarrow> int \<Rightarrow> cache \<Rightarrow> result" where
  "create_order e u r =
     (case redis_get_cart e r u of
        Throws \<Rightarrow> (reply 500 (ErrorBody ''Failed to create order''), r, [])
      | Returns None \<Rightarrow> (reply 400 (ErrorBody ''Cart is empty''), r, [])
      | Returns (Some c) \<Rightarrow>
          (let req = \<lparr>userId = u, items = c, total = cart_total c\<rparr> in
           case order_fetch e req of
             NetworkError \<Rightarrow>
               (reply 500 (ErrorBody ''Failed to create order''), r, [OrderPost req])
           | Response st b \<Rightarrow>
               if \<not> ok st then
                 (case b of
                    None \<Rightarrow>
                      (reply 500 (ErrorBody ''Failed to create order''), r, [OrderPost req])
                  | Some error \<Rightarrow> (reply st (JsonBody error), r, [OrderPost req]))
               else
                 (case b of
                    None \<Rightarrow>
                      (reply 500 (ErrorBody ''Failed to create order''), r, [OrderPost req])
                  | Some order \<Rightarrow>
                      (case redis_del_cart e r u of
                         Throws \<Rightarrow>
                           (reply 500 (ErrorBody ''Failed to create order''), r,
                            [OrderPost req])
                       | Returns r' \<Rightarrow>
                           (reply 201 (JsonBody order), r',
                            OrderPost req # notify_order e u order)))))"

section \<open>Health reporter\<close>

text \<open>\<^verbatim>\<open>Object.entries (config.services)\<close>.\<close>

definition SERVICES :: "string list" where
  "SERVICES = [''auth'', ''product'', ''order'', ''notification'']"

text \<open>One service check. The checks run concurrently, but each writes its own key of
  \<^verbatim>\<open>health.services\<close> and can only set the status to degraded, so their order does
  not matter.\<close>

definition check_service :: "env \<Rightarrow> health \<Rightarrow> string \<Rightarrow> health" where
  "check_service e h svc =
     (case health_fetch e svc of
        Response st b \<Rightarrow>
          h\<lparr>health_services :=
              (health_services h)(svc \<mapsto> (if ok st then ''healthy'' else ''unhealthy''))\<rparr>
      | NetworkError \<Rightarrow>
          h\<lparr>health_services := (health_services h)(svc \<mapsto> ''unreachable''),
            health_status := ''degraded''\<rparr>)"

fun truthy :: "json \<Rightarrow> bool" where
  "truthy JNull = False"
| "truthy (JBool b) = b"
| "truthy (JNum n) = (n \<noteq> 0)"
| "truthy (JStr s) = (s \<noteq> [])"
| "truthy v = True"

definition database_status :: "env \<Rightarrow> json" where
  "database_status e =
     (case auth_health_fetch e of
        NetworkError \<Rightarrow> JStr ''unknown''
      | Response st None \<Rightarrow> JStr ''unknown''
      | Response st (Some authData) \<Rightarrow>
          (case jfield ''database'' authData of
             Throws \<Rightarrow> JStr ''unknown''
           | Returns None \<Rightarrow> JStr ''unknown''
           | Returns (Some d) \<Rightarrow> if truthy d then d else JStr ''unknown''))"

definition health_check :: "env \<Rightarrow> response" where
  "health_check e =
     (let h0 = \<lparr>health_status = ''healthy'', health_cache = [],
                health_services = Map.empty, health_database = JNull\<rparr>;
          h1 = (if redis_ping_ok e then h0\<lparr>health_cache := ''connected''\<rparr>
                else h0\<lparr>health_cache := ''disconnected'', health_status := ''degraded''\<rparr>);
          h2 = foldl (check_service e) h1 SERVICES;
          h3 = h2\<lparr>health_database := database_status e\<rparr>;
          statusCode = (if health_status h3 = ''healthy'' then 200 else 503)
      in reply statusCode (HealthBody h3))"

section \<open>Rate limiter\<close>

record request =
  req_time :: nat
  req_client :: string
  req_path :: string

text \<open>The options object passed to \<^verbatim>\<open>rateLimit\<close>.\<close>

record limiter =
  windowMs :: nat
  max_hits :: nat
  message :: string
  skip :: "request \<Rightarrow> bool"



record window =
  hits :: nat
  resetTime :: nat

type_synonym hit_store = "string \<rightharpoonup> window"

text \<open>
  Modelled from the spec: the counting done inside \<^verbatim>\<open>rateLimit\<close> (package
  express-rate-limit, not part of the sources). The spec's data model has a
  per-client-identity counter with a fixed time window and a maximum count, which resets
  when the window elapses, and rejects the request number N+1 of a window with 429 when
  the limit is N; a skipped request is not counted.
\<close>

definition increment :: "nat \<Rightarrow> request \<Rightarrow> hit_store \<Rightarrow> window" where
  "increment w req s =
     (case s (req_client req) of
        None \<Rightarrow> \<lparr>hits = 1, resetTime = req_time req + w\<rparr>
      | Some x \<Rightarrow>
          if req_time req < resetTime x then x\<lparr>hits := hits x + 1\<rparr>
          else \<lparr>hits = 1, resetTime = req_time req + w\<rparr>)"

text \<open>
  Modelled from the spec: the middleware \<^verbatim>\<open>rateLimit (options)\<close> returns. A request the
  \<^verbatim>\<open>skip\<close> option selects passes uncounted; any other request is counted, and is
  answered with 429 and the configured message when its count exceeds \<^verbatim>\<open>max\<close>.
\<close>

definition rateLimit :: "limiter \<Rightarrow> request \<Rightarrow> hit_store \<Rightarrow> response option \<times> hit_store" where
  "rateLimit l req s =
     (if skip l req then (None, s)
      else
        (let x = increment (windowMs l) req s;
             s' = s(req_client req \<mapsto> x)
         in if max_hits l < hits x then (Some (reply 429 (ErrorBody (message l))), s')
            else (None, s')))"








section \<open>Observations and example inputs\<close>



text \<open>The cart \<^verbatim>\<open>GET /cart\<close> would show for a user.\<close>

definition cart_of :: "cache \<Rightarrow> int \<Rightarrow> cart" where
  "cart_of r u = stored_cart (map_option fst (carts r u))"


text \<open>An outside world in which Redis answers, no token verifies, the product service
  knows no product, the order service accepts every order as number 42, the
  notification service cannot be reached, and every health probe answers 200.\<close>

definition quiet :: env where
  "quiet =
     \<lparr>redis_ping_ok = True, redis_get_ok = True, redis_setex_ok = True, redis_del_ok = True,
      jwt_verify = (\<lambda>t. None),
      product_fetch = (\<lambda>p. Response 404 None),
      order_fetch = (\<lambda>req. Response 201 (Some (JObj [(''id'', JNum 42)]))),
      notify_fetch = (\<lambda>n. NetworkError),
      health_fetch = (\<lambda>s. Response 200 None),
      auth_health_fetch = NetworkError\<rparr>"

definition empty_cache :: cache where
  "empty_cache = \<lparr>carts = Map.empty, blacklist = Map.empty\<rparr>"

definition mug :: item where
  "mug = \<lparr>productId = 1, name = ''Mug'', price = 10, image_src = ''mug.png'', quantity = 2\<rparr>"


text \<open>User 7 has a cart holding two mugs; the token \<^verbatim>\<open>abc\<close> has been revoked.\<close>

definition one_cart :: cache where
  "one_cart = \<lparr>carts = [7 \<mapsto> ([mug], CART_TTL)], blacklist = [''abc'' \<mapsto> 60]\<rparr>"

text \<open>The sum of the quantities of the entries a cart has for a productId.\<close>

definition qsum :: "int \<Rightarrow> cart \<Rightarrow> int" where
  "qsum p c = sum_list (map quantity (filter (\<lambda>i. productId i = p) c))"






text \<open>Every stored cart is unique by productId.\<close>

definition carts_unique :: "cache \<Rightarrow> bool" where
  "carts_unique r \<longleftrightarrow> (\<forall>u. distinct (map productId (cart_of r u)))"


definition order_rejects :: env where
  "order_rejects =
     quiet\<lparr>order_fetch := (\<lambda>req. Response 409
        (Some (JObj [(''error'', JStr ''Insufficient stock'')])))\<rparr>"


definition order_unhealthy :: env where
  "order_unhealthy =
     quiet\<lparr>health_fetch :=
        (\<lambda>s. if s = ''order'' then Response 500 None else Response 200 None)\<rparr>"




section \<open>Cart aggregator: lemmas\<close>



lemma find_item_None: "find_item p c = None \<longleftrightarrow> p \<notin> set (map productId c)"
  by (induction c) (auto simp: find_item_def)



lemma productId_update_first:
  "(\<And>x. productId (f x) = productId x) \<Longrightarrow>
   map productId (update_first p f c) = map productId c"
  by (induction c) auto





lemma productId_merge_item:
  "map productId (merge_item c it) =
     (if productId it \<in> set (map productId c) then map productId c
      else map productId c @ [productId it])"
  using find_item_None[of "productId it" c]
  by (auto simp: merge_item_def productId_update_first split: option.splits)



lemma distinct_merge_items:
  "distinct (map productId c) \<Longrightarrow> distinct (map productId (merge_items c its))"
proof (induction its arbitrary: c)
  case Nil then show ?case by simp
next
  case (Cons it its)
  have "distinct (map productId (merge_item c it))"
    using Cons.prems by (simp only: productId_merge_item) auto
  then show ?case using Cons.IH by simp
qed


section \<open>Adding to the cart: lemmas\<close>

lemma qsum_update_first:
  "qsum p' (update_first p (\<lambda>x. x\<lparr>quantity := quantity x + q\<rparr>) c) =
     qsum p' c + (if p' = p \<and> p \<in> set (map productId c) then q else 0)"
  by (induction c) (auto simp: qsum_def)

lemma qsum_append_new:
  "qsum p' (c @ [new_item p pr q]) = qsum p' c + (if p' = p then q else 0)"
  by (simp add: qsum_def new_item_def)



text \<open>What a successful add stores.\<close>

lemma cart_add_down:
  "\<not> redis_get_ok e \<Longrightarrow>
   cart_add e u p q r = (reply 500 (ErrorBody ''Failed to add to cart''), r, [])"
  by (simp add: cart_add_def redis_get_cart_def)

lemma cart_add_existing:
  "redis_get_ok e \<Longrightarrow> find_item p (cart_of r u) = Some x \<Longrightarrow>
   cart_add e u p q r =
     (if redis_setex_ok e then
        (reply 200 (CartBody (update_first p (\<lambda>x. x\<lparr>quantity := quantity x + q\<rparr>) (cart_of r u))),
         r\<lparr>carts := (carts r)(u \<mapsto>
              (update_first p (\<lambda>x. x\<lparr>quantity := quantity x + q\<rparr>) (cart_of r u), CART_TTL))\<rparr>,
         [])
      else (reply 500 (ErrorBody ''Failed to add to cart''), r, []))"
  by (simp add: cart_add_def redis_get_cart_def redis_setex_cart_def cart_of_def Let_def)

lemma cart_add_new:
  "redis_get_ok e \<Longrightarrow> find_item p (cart_of r u) = None \<Longrightarrow>
   cart_add e u p q r =
     (case product_fetch e p of
        NetworkError \<Rightarrow> (reply 500 (ErrorBody ''Failed to add to cart''), r, [ProductGet p])
      | Response st b \<Rightarrow>
          if \<not> ok st then (reply 404 (ErrorBody ''Product not found''), r, [ProductGet p])
          else
            (case b of
               None \<Rightarrow> (reply 500 (ErrorBody ''Failed to add to cart''), r, [ProductGet p])
             | Some pr \<Rightarrow>
                 if redis_setex_ok e then
                   (reply 200 (CartBody (cart_of r u @ [new_item p pr q])),
                    r\<lparr>carts := (carts r)(u \<mapsto> (cart_of r u @ [new_item p pr q], CART_TTL))\<rparr>,
                    [ProductGet p])
                 else (reply 500 (ErrorBody ''Failed to add to cart''), r, [ProductGet p])))"
  by (simp add: cart_add_def redis_get_cart_def redis_setex_cart_def cart_of_def Let_def
      split: fetched.splits option.splits)

lemma cart_add_200:
  assumes "status (fst (cart_add e u p q r)) = 200"
  shows "\<exists>c'. fst (snd (cart_add e u p q r)) = r\<lparr>carts := (carts r)(u \<mapsto> (c', CART_TTL))\<rparr>
          \<and> ((find_item p (cart_of r u) \<noteq> None \<and>
                c' = update_first p (\<lambda>x. x\<lparr>quantity := quantity x + q\<rparr>) (cart_of r u))
             \<or> (find_item p (cart_of r u) = None \<and>
                (\<exists>pr. c' = cart_of r u @ [new_item p pr q])))"
proof (cases "redis_get_ok e")
  case False
  then show ?thesis using assms by (simp add: cart_add_down reply_def)
next
  case up: True
  show ?thesis
  proof (cases "find_item p (cart_of r u)")
    case (Some x)
    then show ?thesis
      using assms up by (simp add: cart_add_existing reply_def split: if_splits)
  next
    case None
    show ?thesis
    proof (cases "product_fetch e p")
      case NetworkError
      then show ?thesis using assms up None by (simp add: cart_add_new reply_def)
    next
      case (Response st b)
      then show ?thesis
        using assms up None
        by (cases b) (auto simp: cart_add_new reply_def split: if_splits)
    qed
  qed
qed

lemma cart_of_update: "cart_of (r\<lparr>carts := (carts r)(u \<mapsto> (c, t))\<rparr>) u = c"
  by (simp add: cart_of_def stored_cart_def)

lemma cart_add_step:
  assumes ok: "status (fst (cart_add e u p q r)) = 200"
    and d: "distinct (map productId (cart_of r u))"
  shows "distinct (map productId (cart_of (fst (snd (cart_add e u p q r))) u))
       \<and> (\<forall>p'. qsum p' (cart_of (fst (snd (cart_add e u p q r))) u) =
                 qsum p' (cart_of r u) + (if p' = p then q else 0))
       \<and> set (map productId (cart_of (fst (snd (cart_add e u p q r))) u)) =
           insert p (set (map productId (cart_of r u)))"
proof -
  obtain c' where r: "fst (snd (cart_add e u p q r)) = r\<lparr>carts := (carts r)(u \<mapsto> (c', CART_TTL))\<rparr>"
    and c': "(find_item p (cart_of r u) \<noteq> None \<and>
                c' = update_first p (\<lambda>x. x\<lparr>quantity := quantity x + q\<rparr>) (cart_of r u))
             \<or> (find_item p (cart_of r u) = None \<and>
                (\<exists>pr. c' = cart_of r u @ [new_item p pr q]))"
    using cart_add_200[OF ok] by blast
  have co: "cart_of (fst (snd (cart_add e u p q r))) u = c'"
    by (simp only: r cart_of_update)
  from c' show ?thesis
  proof
    assume a: "find_item p (cart_of r u) \<noteq> None \<and>
                c' = update_first p (\<lambda>x. x\<lparr>quantity := quantity x + q\<rparr>) (cart_of r u)"
    then have m: "p \<in> set (map productId (cart_of r u))"
      using find_item_None[of p "cart_of r u"] by auto
    have pid: "map productId c' = map productId (cart_of r u)"
      using a by (simp add: productId_update_first)
    show ?thesis
      unfolding co using a m d pid
      by (auto simp: qsum_update_first simp del: map_map)
  next
    assume a: "find_item p (cart_of r u) = None \<and>
                (\<exists>pr. c' = cart_of r u @ [new_item p pr q])"
    then obtain pr where b: "c' = cart_of r u @ [new_item p pr q]" by blast
    have m: "p \<notin> set (map productId (cart_of r u))"
      using a find_item_None[of p "cart_of r u"] by auto
    have pid: "map productId c' = map productId (cart_of r u) @ [p]"
      using b by (simp add: new_item_def)
    show ?thesis
      unfolding co using m d pid b
      by (auto simp: qsum_append_new simp del: map_map)
  qed
qed












section \<open>Carts stay unique by productId\<close>

text \<open>The empty cache has unique carts, and every handler that writes carts keeps them
  unique, so the carts the gateway can ever store are unique by productId.\<close>

lemma cart_of_other:
  "v \<noteq> u \<Longrightarrow> cart_of (r\<lparr>carts := (carts r)(u \<mapsto> x)\<rparr>) v = cart_of r v"
  by (simp add: cart_of_def)

lemma cart_of_deleted:
  "cart_of (r\<lparr>carts := (carts r)(u := None)\<rparr>) v = (if v = u then [] else cart_of r v)"
  by (simp add: cart_of_def stored_cart_def)

lemma cart_add_failed:
  "status (fst (cart_add e u p q r)) \<noteq> 200 \<Longrightarrow> fst (snd (cart_add e u p q r)) = r"
proof (cases "redis_get_ok e")
  case False
  then show ?thesis by (simp add: cart_add_down)
next
  case up: True
  assume f: "status (fst (cart_add e u p q r)) \<noteq> 200"
  show ?thesis
  proof (cases "find_item p (cart_of r u)")
    case (Some x)
    then show ?thesis
      using f up by (simp add: cart_add_existing reply_def split: if_splits)
  next
    case None
    then show ?thesis
      using f up
      by (simp add: cart_add_new reply_def split: fetched.splits option.splits if_splits)
  qed
qed

lemma cart_add_unique:
  assumes "carts_unique r"
  shows "carts_unique (fst (snd (cart_add e u p q r)))"
proof (cases "status (fst (cart_add e u p q r)) = 200")
  case False
  then show ?thesis using assms by (simp add: cart_add_failed)
next
  case True
  have d: "distinct (map productId (cart_of r u))"
    using assms by (simp add: carts_unique_def)
  obtain c' where r': "fst (snd (cart_add e u p q r)) = r\<lparr>carts := (carts r)(u \<mapsto> (c', CART_TTL))\<rparr>"
    using cart_add_200[OF True] by blast
  have "distinct (map productId (cart_of (fst (snd (cart_add e u p q r))) v))" for v
  proof (cases "v = u")
    case True
    then show ?thesis using cart_add_step[OF \<open>status (fst (cart_add e u p q r)) = 200\<close> d] by simp
  next
    case False
    then show ?thesis
      using assms unfolding r' by (simp add: cart_of_other carts_unique_def)
  qed
  then show ?thesis by (simp add: carts_unique_def)
qed

lemma cart_sync_unique:
  assumes "carts_unique r"
  shows "carts_unique (fst (snd (cart_sync e u its r)))"
proof -
  have "fst (snd (cart_sync e u its r)) = r
      \<or> fst (snd (cart_sync e u its r)) =
          r\<lparr>carts := (carts r)(u \<mapsto> (merge_items (cart_of r u) its, CART_TTL))\<rparr>"
    by (simp add: cart_sync_def redis_get_cart_def redis_setex_cart_def cart_of_def Let_def)
  then show ?thesis
  proof
    assume "fst (snd (cart_sync e u its r)) = r"
    then show ?thesis using assms by simp
  next
    assume r': "fst (snd (cart_sync e u its r)) =
          r\<lparr>carts := (carts r)(u \<mapsto> (merge_items (cart_of r u) its, CART_TTL))\<rparr>"
    have "distinct (map productId (cart_of (fst (snd (cart_sync e u its r))) v))" for v
    proof (cases "v = u")
      case True
      have "distinct (map productId (cart_of r u))"
        using assms by (simp add: carts_unique_def)
      then show ?thesis
        unfolding r' True by (simp only: cart_of_update distinct_merge_items)
    next
      case False
      then show ?thesis
        using assms unfolding r' by (simp add: cart_of_other carts_unique_def)
    qed
    then show ?thesis by (simp add: carts_unique_def)
  qed
qed

lemma cart_clear_unique:
  "carts_unique r \<Longrightarrow> carts_unique (fst (snd (cart_clear e u r)))"
  by (simp add: cart_clear_def redis_del_cart_def carts_unique_def cart_of_deleted)

lemma create_order_cache:
  "fst (snd (create_order e u r)) = r
   \<or> fst (snd (create_order e u r)) = r\<lparr>carts := (carts r)(u := None)\<rparr>"
  by (simp add: create_order_def redis_del_cart_def Let_def
      split: promise.splits option.splits fetched.splits)

lemma create_order_unique:
  "carts_unique r \<Longrightarrow> carts_unique (fst (snd (create_order e u r)))"
  using create_order_cache[of e u r]
  by (auto simp: carts_unique_def cart_of_deleted)

lemma empty_cache_unique: "carts_unique empty_cache"
  by (simp add: carts_unique_def cart_of_def stored_cart_def empty_cache_def)


section \<open>Checkout and health: lemmas\<close>

lemma create_order_absent_cart:
  "redis_get_cart e r u = Returns None \<Longrightarrow>
   create_order e u r = (reply 400 (ErrorBody ''Cart is empty''), r, [])"
  by (simp add: create_order_def)

lemma create_order_cache_down:
  "redis_get_cart e r u = Throws \<Longrightarrow>
   create_order e u r = (reply 500 (ErrorBody ''Failed to create order''), r, [])"
  by (simp add: create_order_def)

lemma health_status_check_service:
  "health_status (check_service e h s) =
     (if health_fetch e s = NetworkError then ''degraded'' else health_status h)"
  by (simp add: check_service_def split: fetched.splits)

lemma health_status_foldl:
  "health_status (foldl (check_service e) h ss) =
     (if \<exists>s\<in>set ss. health_fetch e s = NetworkError then ''degraded'' else health_status h)"
  by (induction ss arbitrary: h) (auto simp: health_status_check_service)

text \<open>What the handler does compute: the status is healthy exactly when the ping
  completes and every probe gets some response, whatever its status code; and the HTTP
  status is 200 for healthy and 503 for degraded.\<close>

lemma health_check_verdict:
  "\<exists>h. health_check e =
          reply (if health_status h = ''healthy'' then 200 else 503) (HealthBody h)
     \<and> health_status h =
         (if redis_ping_ok e \<and> (\<forall>s\<in>set SERVICES. health_fetch e s \<noteq> NetworkError)
          then ''healthy'' else ''degraded'')"
proof -
  define h1 where "h1 =
     (if redis_ping_ok e then
        \<lparr>health_status = ''healthy'', health_cache = ''connected'',
         health_services = Map.empty, health_database = JNull\<rparr>
      else
        \<lparr>health_status = ''degraded'', health_cache = ''disconnected'',
         health_services = Map.empty, health_database = JNull\<rparr>)"
  define h where "h = (foldl (check_service e) h1 SERVICES)\<lparr>health_database := database_status e\<rparr>"
  have 1: "health_check e =
      reply (if health_status h = ''healthy'' then 200 else 503) (HealthBody h)"
    by (simp add: health_check_def Let_def h_def h1_def)
  have 2: "health_status h =
      (if redis_ping_ok e \<and> (\<forall>s\<in>set SERVICES. health_fetch e s \<noteq> NetworkError)
       then ''healthy'' else ''degraded'')"
    by (simp add: h_def h1_def health_status_foldl)
  show ?thesis using 1 2 by blast
qed

section \<open>Rate limiter: lemmas\<close>






lemma rateLimit_skip: "skip l req \<Longrightarrow> rateLimit l req s = (None, s)"
  by (simp add: rateLimit_def)










section \<open>Claims\<close>

text \<open>
  C1. The composite status of \<^verbatim>\<open>GET /health\<close> is healthy only if the cache ping
  succeeds and every downstream probe reports healthy, otherwise degraded, with HTTP 200
  for healthy and 503 for degraded. The handler fails this for a service whose health
  endpoint answers with a non-success status: the entry of the service becomes
  \<^verbatim>\<open>unhealthy\<close>, but only the \<^verbatim>\<open>catch\<close> branch (service unreachable) degrades the
  overall status. Here Redis answers the ping and the order service answers its probe
  with 500: the response is 200 with status healthy while the order service is listed
  as unhealthy.
\<close>

theorem health_ignores_unhealthy_service:
  "redis_ping_ok order_unhealthy
   \<and> health_fetch order_unhealthy ''order'' = Response 500 None \<and> \<not> ok 500
   \<and> (\<exists>h. health_check order_unhealthy = reply 200 (HealthBody h)
         \<and> health_status h = ''healthy''
         \<and> health_services h ''order'' = Some ''unhealthy'')"
  by (auto simp: health_check_def order_unhealthy_def quiet_def SERVICES_def
      check_service_def ok_def Let_def reply_def)

text \<open>
  C2. Checkout with an empty cart fails with 400 (cart is empty) and issues no request
  to the order service. The handler tests only whether the cart key exists
  (\<^verbatim>\<open>!cartData\<close>). A sync with an empty item list by a user without a cart stores the
  empty array; \<^verbatim>\<open>GET /cart\<close> then shows the empty cart, and checkout posts an order
  with no items and total 0 to the order service and answers 201.
\<close>

theorem checkout_of_empty_array_cart:
  "fst (cart_sync quiet 7 [] empty_cache) = reply 200 (CartBody [])
   \<and> fst (cart_get quiet 7 (fst (snd (cart_sync quiet 7 [] empty_cache))))
       = reply 200 (CartBody [])
   \<and> fst (create_order quiet 7 (fst (snd (cart_sync quiet 7 [] empty_cache))))
       = reply 201 (JsonBody (JObj [(''id'', JNum 42)]))
   \<and> snd (snd (create_order quiet 7 (fst (snd (cart_sync quiet 7 [] empty_cache)))))
       = [OrderPost \<lparr>userId = 7, items = [], total = 0\<rparr>,
          NotifyPost \<lparr>notify_userId = 7, notify_type = ''order_created'',
            notify_orderId = Some (JNum 42), notify_total = None\<rparr>]"
  by (simp add: cart_sync_def cart_get_def create_order_def notify_order_def
      redis_get_cart_def redis_setex_cart_def redis_del_cart_def stored_cart_def
      cart_total_def quiet_def empty_cache_def ok_def Let_def)






text \<open>
  C5. When checkout has read the cart and the call to the order service fails or
  returns a non-success status, the gateway answers with the downstream status and
  body when the body is JSON, and otherwise with 500 (failed to create order); in every
  such case the cache is exactly what it was, so the stored cart and its TTL are
  unchanged, and no other request is issued.
\<close>

theorem checkout_failure_keeps_cart:
  "redis_get_cart e r u = Returns (Some c) \<Longrightarrow>
   req = \<lparr>userId = u, items = c, total = cart_total c\<rparr> \<Longrightarrow>
   order_fetch e req = NetworkError \<or> (\<exists>st b. order_fetch e req = Response st b \<and> \<not> ok st) \<Longrightarrow>
   (case order_fetch e req of
      Response st (Some error) \<Rightarrow> fst (create_order e u r) = reply st (JsonBody error)
    | _ \<Rightarrow> fst (create_order e u r) = reply 500 (ErrorBody ''Failed to create order''))
   \<and> fst (snd (create_order e u r)) = r
   \<and> snd (snd (create_order e u r)) = [OrderPost req]"
  by (auto simp: create_order_def Let_def split: fetched.splits option.splits)

text \<open>The order service rejects the order for two mugs with 409: the 409 and its body
  reach the caller, and the cart is kept.\<close>

theorem checkout_failure_keeps_cart_witness:
  "redis_get_cart order_rejects one_cart 7 = Returns (Some [mug])
   \<and> order_fetch order_rejects \<lparr>userId = 7, items = [mug], total = cart_total [mug]\<rparr>
       = Response 409 (Some (JObj [(''error'', JStr ''Insufficient stock'')]))
   \<and> \<not> ok 409
   \<and> fst (create_order order_rejects 7 one_cart)
       = reply 409 (JsonBody (JObj [(''error'', JStr ''Insufficient stock'')]))
   \<and> fst (snd (create_order order_rejects 7 one_cart)) = one_cart"
proof -
  have g: "redis_get_cart order_rejects one_cart 7 = Returns (Some [mug])"
    by (simp add: redis_get_cart_def order_rejects_def quiet_def one_cart_def)
  have f: "order_fetch order_rejects \<lparr>userId = 7, items = [mug], total = cart_total [mug]\<rparr>
       = Response 409 (Some (JObj [(''error'', JStr ''Insufficient stock'')]))"
    by (simp add: order_rejects_def)
  have n: "\<not> ok 409"
    by (simp add: ok_def)
  have "order_fetch order_rejects \<lparr>userId = 7, items = [mug], total = cart_total [mug]\<rparr> = NetworkError
      \<or> (\<exists>st b. order_fetch order_rejects \<lparr>userId = 7, items = [mug], total = cart_total [mug]\<rparr>
            = Response st b \<and> \<not> ok st)"
    using f n by blast
  from checkout_failure_keeps_cart[OF g refl this] show ?thesis
    using g f n by simp
qed











text \<open>
  C10. When \<^verbatim>\<open>POST /cart/add\<close> has read a cart without the productId and the product
  service answers the lookup with a non-success status, the handler responds 404
  (product not found) and returns the cache exactly as it was: nothing is written, so
  the contents and the TTL of the stored cart are unchanged. The only request issued is
  the product lookup.
\<close>

theorem add_unknown_product_atomic:
  "redis_get_cart e r u = Returns cartData \<Longrightarrow> find_item p (stored_cart cartData) = None \<Longrightarrow>
   product_fetch e p = Response st b \<Longrightarrow> \<not> ok st \<Longrightarrow>
   cart_add e u p q r = (reply 404 (ErrorBody ''Product not found''), r, [ProductGet p])"
  by (simp add: cart_add_def)

text \<open>User 7, holding two mugs, adds product 2, which the product service does not
  know.\<close>

theorem add_unknown_product_atomic_witness:
  "redis_get_cart quiet one_cart 7 = Returns (Some [mug])
   \<and> find_item 2 (stored_cart (Some [mug])) = None
   \<and> product_fetch quiet 2 = Response 404 None \<and> \<not> ok 404
   \<and> cart_add quiet 7 2 1 one_cart =
       (reply 404 (ErrorBody ''Product not found''), one_cart, [ProductGet 2])
   \<and> carts one_cart 7 = Some ([mug], CART_TTL)"
proof -
  have g: "redis_get_cart quiet one_cart 7 = Returns (Some [mug])"
    by (simp add: redis_get_cart_def quiet_def one_cart_def)
  have f: "find_item 2 (stored_cart (Some [mug])) = None"
    by (simp add: find_item_def stored_cart_def mug_def)
  have p: "product_fetch quiet 2 = Response 404 None"
    by (simp add: quiet_def)
  have n: "\<not> ok 404"
    by (simp add: ok_def)
  have "carts one_cart 7 = Some ([mug], CART_TTL)"
    by (simp add: one_cart_def)
  then show ?thesis
    using add_unknown_product_atomic[OF g f p n, of 1] g f p n by simp
qed

end
